theory Spec2Isabelle
  imports
    Complex_Main
    "HOL-Library.Multiset"
    "HOL-Library.Sublist"
    "HOL-Library.Char_ord"
    "HOL-Library.List_Lexorder"
begin

section \<open>The survey table\<close>

text \<open>
  \<^verbatim>\<open>Final.py\<close> is one script over a pandas data frame. A row of the frame is a record with
  the six columns the script reads; the frame is the list of its rows, in file order.
  The script compares \<^verbatim>\<open>treatment\<close> with the string \<^verbatim>\<open>'Yes'\<close> (line 96) and sorts
  by the column label \<^verbatim>\<open>'Yes'\<close> of \<^verbatim>\<open>family_history\<close> (line 83), so both columns
  hold strings. The file is the cleaned survey: no cell is missing.
  Only the calendar month of \<^verbatim>\<open>timestamp\<close> is ever used (line 118), so a time stamp is
  a date.
\<close>

record date =
  year :: int
  month :: int
  day :: int

record survey_row =
  country :: string
  gender :: string
  age :: int
  treatment :: string
  family_history :: string
  timestamp :: date

type_synonym frame = "survey_row list"

text \<open>The exceptions the script can raise; it catches none of them.\<close>

datatype py_error = KeyError | ValueError | TypeError

text \<open>
  A float that may be \<^verbatim>\<open>nan\<close>. Numbers are exact rationals: binary rounding error is
  not modelled.
\<close>

datatype pyfloat = NaN | Num rat

section \<open>Filters (lines 15 to 46)\<close>

text \<open>
  Lines 20 to 23 and 30 to 33: an empty multiselect is replaced by the whole column of the
  unfiltered frame.
\<close>

definition filtered_countries :: "frame \<Rightarrow> string list \<Rightarrow> string list" where
  "filtered_countries df selected_countries =
     (if selected_countries = [] then map country df else selected_countries)"

definition filtered_genders :: "frame \<Rightarrow> string list \<Rightarrow> string list" where
  "filtered_genders df selected_genders =
     (if selected_genders = [] then map gender df else selected_genders)"

text \<open>\<^verbatim>\<open>Series.isin(values)\<close> and \<^verbatim>\<open>Series.between(left, right)\<close> (both ends included), row by row.\<close>

definition isin :: "string \<Rightarrow> string list \<Rightarrow> bool" where
  "isin x values = (x \<in> set values)"

definition between :: "int \<Rightarrow> int \<Rightarrow> int \<Rightarrow> bool" where
  "between x left right = (left \<le> x \<and> x \<le> right)"

text \<open>
  Line 37: the slider's bounds, \<^verbatim>\<open>int(df['age'].min())\<close> and \<^verbatim>\<open>int(df['age'].max())\<close>.
  On a frame with no rows the minimum is \<^verbatim>\<open>nan\<close> and \<^verbatim>\<open>int\<close> raises.
\<close>

definition age_slider_bounds :: "frame \<Rightarrow> py_error + (int \<times> int)" where
  "age_slider_bounds df =
     (if df = [] then Inl ValueError
      else Inr (Min (set (map age df)), Max (set (map age df))))"

text \<open>Lines 42 to 46: the boolean mask, and the rows it keeps.\<close>

definition filtered_data :: "frame \<Rightarrow> string list \<Rightarrow> string list \<Rightarrow> int \<times> int \<Rightarrow> frame" where
  "filtered_data df selected_countries selected_genders age_filter =
     filter (\<lambda>r. isin (country r) (filtered_countries df selected_countries)
                \<and> isin (gender r) (filtered_genders df selected_genders)
                \<and> between (age r) (fst age_filter) (snd age_filter)) df"

text \<open>
  The specification's reading of a filter: a set of countries and a set of genders, the
  empty set meaning no restriction, and an inclusive age range.
\<close>

definition spec_matches :: "string set \<Rightarrow> string set \<Rightarrow> int \<Rightarrow> int \<Rightarrow> survey_row \<Rightarrow> bool" where
  "spec_matches countries genders age_min age_max r =
     ((countries = {} \<or> country r \<in> countries)
      \<and> (genders = {} \<or> gender r \<in> genders)
      \<and> age_min \<le> age r \<and> age r \<le> age_max)"

section \<open>Entries by country (lines 66 and 67)\<close>

text \<open>
  \<^verbatim>\<open>Series.value_counts()\<close> tallies the distinct values, in the order in which they are
  first seen, and then sorts the tally by count, descending, with the library's default
  sorting algorithm. That algorithm is not stable, so the order of values with equal
  counts is not fixed: the operation is a relation between the column and each table it
  may return, any descending arrangement of the tally.
\<close>

definition first_seen :: "'a list \<Rightarrow> 'a list" where
  "first_seen xs = rev (remdups (rev xs))"

definition tally :: "string list \<Rightarrow> (string \<times> nat) list" where
  "tally xs = map (\<lambda>k. (k, count_list xs k)) (first_seen xs)"

definition descending_by :: "('a \<Rightarrow> nat) \<Rightarrow> 'a list \<Rightarrow> bool" where
  "descending_by key xs = sorted_wrt (\<lambda>a b. key b \<le> key a) xs"

inductive value_counts :: "string list \<Rightarrow> (string \<times> nat) list \<Rightarrow> bool" where
  value_counts_sorted:
    "mset out = mset (tally xs) \<Longrightarrow> descending_by snd out \<Longrightarrow> value_counts xs out"

text \<open>\<^verbatim>\<open>reset_index()\<close> and the renaming of the columns leave the pairs as they are.\<close>

definition country_counts :: "frame \<Rightarrow> (string \<times> nat) list \<Rightarrow> bool" where
  "country_counts fd out = value_counts (map country fd) out"

section \<open>Family history by country (lines 79 to 85)\<close>

text \<open>
  \<^verbatim>\<open>groupby('country')['family_history'].value_counts()\<close>: a series of counts indexed by
  the pairs (country, answer) that occur, the countries in ascending order (\<^verbatim>\<open>groupby\<close>
  sorts its keys). Within a country pandas lists the answers by count; \<^verbatim>\<open>unstack\<close> below
  sorts the answers again, so they are listed here in ascending order.
\<close>

definition groupby_value_counts :: "frame \<Rightarrow> ((string \<times> string) \<times> nat) list" where
  "groupby_value_counts fd =
     concat (map (\<lambda>c.
        let grp = filter (\<lambda>r. country r = c) fd
        in map (\<lambda>f. ((c, f), length (filter (\<lambda>r. family_history r = f) grp)))
               (sort (remdups (map family_history grp))))
       (sort (remdups (map country fd))))"

text \<open>
  A table of counts: the column labels, and one row per index label with one cell per
  column.
\<close>

record crosstab =
  columns :: "string list"
  body :: "(string \<times> nat list) list"

text \<open>
  \<^verbatim>\<open>unstack(fill_value=0)\<close>: the second index level becomes the columns, both levels
  sorted; a pair that does not occur gets 0.
\<close>

definition unstack :: "((string \<times> string) \<times> nat) list \<Rightarrow> crosstab" where
  "unstack s =
     (let cols = sort (remdups (map (snd \<circ> fst) s))
      in \<lparr>columns = cols,
          body = map (\<lambda>c. (c, map (\<lambda>f. case map_of s (c, f) of Some n \<Rightarrow> n | None \<Rightarrow> 0) cols))
                     (sort (remdups (map (fst \<circ> fst) s)))\<rparr>)"

text \<open>The cell of a row in the column with the given label.\<close>

definition cell :: "crosstab \<Rightarrow> string \<Rightarrow> string \<times> nat list \<Rightarrow> nat" where
  "cell t label r = (case map_of (zip (columns t) (snd r)) label of Some n \<Rightarrow> n | None \<Rightarrow> 0)"

text \<open>
  \<^verbatim>\<open>sort_values(by=..., ascending=False)\<close>: raises \<^verbatim>\<open>KeyError\<close> when the table has no
  such column; otherwise returns the rows in descending order of that column. The call
  does not ask for a stable sort (\<^verbatim>\<open>kind\<close> keeps its default), so any descending
  arrangement of the rows is a possible result.
\<close>

inductive sort_values :: "crosstab \<Rightarrow> string \<Rightarrow> py_error + crosstab \<Rightarrow> bool" where
  sort_values_missing:
    "label \<notin> set (columns t) \<Longrightarrow> sort_values t label (Inl KeyError)"
| sort_values_sorted:
    "label \<in> set (columns t) \<Longrightarrow> mset rs = mset (body t)
     \<Longrightarrow> descending_by (cell t label) rs
     \<Longrightarrow> sort_values t label (Inr (t\<lparr>body := rs\<rparr>))"

definition head :: "nat \<Rightarrow> crosstab \<Rightarrow> crosstab" where
  "head n t = t\<lparr>body := take n (body t)\<rparr>"

inductive family_history_by_country :: "frame \<Rightarrow> py_error + crosstab \<Rightarrow> bool" where
  family_history_raises:
    "sort_values (unstack (groupby_value_counts fd)) ''Yes'' (Inl e)
     \<Longrightarrow> family_history_by_country fd (Inl e)"
| family_history_returns:
    "sort_values (unstack (groupby_value_counts fd)) ''Yes'' (Inr t)
     \<Longrightarrow> family_history_by_country fd (Inr (head 10 t))"

section \<open>Key performance indicators (lines 94 to 96)\<close>

text \<open>The options of the selectbox of line 50.\<close>

datatype kpi_feature = Age | Treatment | Family_history

text \<open>The mean of a numeric series; of an empty one it is \<^verbatim>\<open>nan\<close>, without an exception.\<close>

definition mean :: "rat list \<Rightarrow> pyfloat" where
  "mean xs = (if xs = [] then NaN else Num (sum_list xs / of_nat (length xs)))"

text \<open>
  The mean of a series of strings: pandas adds the values up, which for strings joins
  them, and refuses the result, which is no number, raising \<^verbatim>\<open>TypeError\<close>. An empty
  series is answered before any sum is taken: its mean is \<^verbatim>\<open>nan\<close>, as for numbers.
\<close>

definition mean_object :: "string list \<Rightarrow> py_error + pyfloat" where
  "mean_object xs = (if xs = [] then Inr NaN else Inl TypeError)"

definition column_mean :: "frame \<Rightarrow> kpi_feature \<Rightarrow> py_error + pyfloat" where
  "column_mean fd selected_kpi =
     (case selected_kpi of
        Age \<Rightarrow> Inr (mean (map (of_int \<circ> age) fd))
      | Treatment \<Rightarrow> mean_object (map treatment fd)
      | Family_history \<Rightarrow> mean_object (map family_history fd))"

text \<open>Rounding to a number of decimals, halves to the even neighbour; \<^verbatim>\<open>nan\<close> stays.\<close>

definition round_half_even :: "rat \<Rightarrow> int" where
  "round_half_even q =
     (let f = \<lfloor>q\<rfloor>; d = q - of_int f
      in if d < 1 / 2 then f else if 1 / 2 < d then f + 1 else if even f then f else f + 1)"

definition py_round :: "pyfloat \<Rightarrow> nat \<Rightarrow> pyfloat" where
  "py_round x ndigits =
     (case x of NaN \<Rightarrow> NaN
      | Num q \<Rightarrow> Num (of_int (round_half_even (q * 10 ^ ndigits)) / 10 ^ ndigits))"

definition scale :: "pyfloat \<Rightarrow> rat \<Rightarrow> pyfloat" where
  "scale x k = (case x of NaN \<Rightarrow> NaN | Num q \<Rightarrow> Num (q * k))"

text \<open>
  The three metrics, in the order of the script: an exception of line 95 ends the run
  before line 96. The third is the number that \<^verbatim>\<open>:.1f\<close> prints.
\<close>

record kpis =
  total_entries :: nat
  kpi_average :: pyfloat
  treatment_rate :: pyfloat

definition treatment_metric :: "frame \<Rightarrow> pyfloat" where
  "treatment_metric fd =
     py_round (scale (mean (map (\<lambda>r. if treatment r = ''Yes'' then 1 else 0) fd)) 100) 1"

definition compute_kpis :: "frame \<Rightarrow> kpi_feature \<Rightarrow> py_error + kpis" where
  "compute_kpis fd selected_kpi =
     (case column_mean fd selected_kpi of
        Inl e \<Rightarrow> Inl e
      | Inr m \<Rightarrow> Inr \<lparr>total_entries = length fd,
                     kpi_average = py_round m 2,
                     treatment_rate = treatment_metric fd\<rparr>)"

section \<open>Trend prediction (lines 118 to 125)\<close>

text \<open>Calendar months, numbered consecutively.\<close>

definition month_number :: "date \<Rightarrow> int" where
  "month_number d = year d * 12 + (month d - 1)"

text \<open>
  The months of the rows, the earliest and the latest of them, and the number of rows
  that fall in a month. (\<^verbatim>\<open>count()\<close> counts the cells of \<^verbatim>\<open>treatment\<close> that are not
  missing; none is.)
\<close>

definition months_of :: "frame \<Rightarrow> int list" where
  "months_of fd = map (month_number \<circ> timestamp) fd"

definition first_month :: "frame \<Rightarrow> int" where
  "first_month fd = Min (set (months_of fd))"

definition last_month :: "frame \<Rightarrow> int" where
  "last_month fd = Max (set (months_of fd))"

definition month_count :: "frame \<Rightarrow> int \<Rightarrow> nat" where
  "month_count fd m = length (filter (\<lambda>r. month_number (timestamp r) = m) fd)"

text \<open>
  \<^verbatim>\<open>set_index('timestamp').resample('M')['treatment'].count()\<close>: one bin for every
  calendar month from the month of the earliest row to the month of the latest, in
  ascending order, each with the number of rows that fall in it; a month of that range
  without rows is a bin with count 0. A frame with no rows gives no bins.
\<close>

definition resample_count :: "frame \<Rightarrow> (int \<times> nat) list" where
  "resample_count fd =
     (if fd = [] then []
      else map (\<lambda>m. (m, month_count fd m)) [first_month fd .. last_month fd])"

text \<open>Lines 118 and 119: the monthly table with its running index.\<close>

record month_row =
  td_timestamp :: int
  td_treatment :: nat
  month_index :: nat

definition time_data :: "frame \<Rightarrow> month_row list" where
  "time_data fd =
     map (\<lambda>(i, (m, c)). \<lparr>td_timestamp = m, td_treatment = c, month_index = i\<rparr>)
         (enumerate 0 (resample_count fd))"

text \<open>
  \<^verbatim>\<open>LinearRegression().fit(X, y)\<close> with one predictor: the library rejects an input of
  no samples with \<^verbatim>\<open>ValueError\<close>; otherwise it centres both variables and solves the
  least-squares problem, taking the solution of least norm (slope 0) when the predictor
  does not vary. The result is the pair of slope and intercept.
\<close>

definition average :: "rat list \<Rightarrow> rat" where
  "average xs = sum_list xs / of_nat (length xs)"

definition fit :: "rat list \<Rightarrow> rat list \<Rightarrow> py_error + rat \<times> rat" where
  "fit X y =
     (if X = [] then Inl ValueError
      else let x_offset = average X; y_offset = average y;
               sxx = sum_list (map (\<lambda>x. (x - x_offset) * (x - x_offset)) X);
               sxy = sum_list (map (\<lambda>(x, v). (x - x_offset) * (v - y_offset)) (zip X y));
               coef = (if sxx = 0 then 0 else sxy / sxx)
           in Inr (coef, y_offset - coef * x_offset))"

definition predict :: "rat \<times> rat \<Rightarrow> rat list \<Rightarrow> rat list" where
  "predict model X = map (\<lambda>x. fst model * x + snd model) X"

text \<open>Lines 122 to 125: the table with the fitted column, or the exception of the fit.\<close>

definition predicted_treatment :: "frame \<Rightarrow> py_error + (month_row \<times> rat) list" where
  "predicted_treatment fd =
     (let td = time_data fd;
          X = map (of_nat \<circ> month_index) td;
          y = map (of_nat \<circ> td_treatment) td
      in case fit X y of
           Inl e \<Rightarrow> Inl e
         | Inr model \<Rightarrow> Inr (zip td (predict model X)))"

text \<open>
  The specification's month groups: the calendar months that hold at least one row, in
  ascending order.
\<close>

definition spec_month_groups :: "frame \<Rightarrow> int list" where
  "spec_month_groups fd = sort (remdups (months_of fd))"

section \<open>Sample frames\<close>

definition mk_row ::
  "string \<Rightarrow> string \<Rightarrow> int \<Rightarrow> string \<Rightarrow> string \<Rightarrow> int \<Rightarrow> int \<Rightarrow> survey_row" where
  "mk_row c g a t f y m =
     \<lparr>country = c, gender = g, age = a, treatment = t, family_history = f,
      timestamp = \<lparr>year = y, month = m, day = 1\<rparr>\<rparr>"

definition gap_frame :: frame where
  "gap_frame =
    [mk_row ''US'' ''Male'' 22 ''Yes'' ''No'' 2014 1,
     mk_row ''DE'' ''Female'' 45 ''No'' ''Yes'' 2014 3]"

definition one_month_frame :: frame where
  "one_month_frame =
    [mk_row ''US'' ''Male'' 22 ''Yes'' ''No'' 2014 8,
     mk_row ''US'' ''Female'' 45 ''No'' ''Yes'' 2014 8]"

definition one_row_frame :: frame where
  "one_row_frame = [mk_row ''IN'' ''Male'' 60 ''Yes'' ''Yes'' 2014 11]"

definition two_month_frame :: frame where
  "two_month_frame =
    [mk_row ''US'' ''Male'' 22 ''Yes'' ''No'' 2014 8,
     mk_row ''DE'' ''Male'' 30 ''No'' ''No'' 2014 9,
     mk_row ''US'' ''Female'' 45 ''No'' ''Yes'' 2014 8]"

definition no_history_frame :: frame where
  "no_history_frame =
    [mk_row ''IN'' ''Male'' 31 ''No'' ''No'' 2014 8,
     mk_row ''DE'' ''Female'' 27 ''Yes'' ''No'' 2014 8,
     mk_row ''DE'' ''Male'' 40 ''No'' ''No'' 2014 9]"

definition no_yes_frame :: frame where
  "no_yes_frame =
    [mk_row ''DE'' ''Male'' 30 ''No'' ''No'' 2014 9,
     mk_row ''US'' ''Female'' 19 ''No'' ''No'' 2015 1]"

definition example_frame :: frame where
  "example_frame =
    [mk_row ''US'' ''Male'' 22 ''Yes'' ''No'' 2014 8,
     mk_row ''US'' ''Female'' 45 ''No'' ''Yes'' 2014 8,
     mk_row ''DE'' ''Male'' 30 ''No'' ''No'' 2014 9,
     mk_row ''IN'' ''Male'' 60 ''Yes'' ''Yes'' 2014 11,
     mk_row ''US'' ''Female'' 19 ''No'' ''No'' 2015 1]"

section \<open>Properties of the filter\<close>

lemma mask_eq_spec_matches:
  assumes "r \<in> set df"
  shows "(isin (country r) (filtered_countries df cs)
          \<and> isin (gender r) (filtered_genders df gs)
          \<and> between (age r) lo hi)
         = spec_matches (set cs) (set gs) lo hi r"
  using assms
  by (auto simp: isin_def between_def filtered_countries_def filtered_genders_def
      spec_matches_def)

lemma filtered_data_eq_filter:
  "filtered_data df cs gs (lo, hi) = filter (spec_matches (set cs) (set gs) lo hi) df"
  unfolding filtered_data_def
  by (rule filter_cong) (simp_all add: mask_eq_spec_matches)

text \<open>
  Claim C1. For every frame and every choice of countries, genders and age range, the
  filtered view is the frame restricted to the rows that satisfy the three predicates
  together: it holds exactly those rows, each as often as the frame does, and in the
  frame's order (it is a subsequence of the frame).
\<close>

theorem filtered_data_exact:
  "filtered_data df cs gs (lo, hi) = filter (spec_matches (set cs) (set gs) lo hi) df
   \<and> set (filtered_data df cs gs (lo, hi))
       = {r \<in> set df. spec_matches (set cs) (set gs) lo hi r}
   \<and> subseq (filtered_data df cs gs (lo, hi)) df"
  by (simp add: filtered_data_eq_filter)

theorem filtered_data_exact_witness:
  "filtered_data example_frame [''US''] [] (20, 50) = take 2 example_frame
   \<and> subseq (take 2 example_frame) example_frame"
  using filtered_data_exact [of example_frame "[''US'']" "[]" 20 50]
  by (simp add: example_frame_def mk_row_def spec_matches_def)

text \<open>
  Claim C5. With nothing selected for country and gender and the age range set to the
  slider's full range, the least and the greatest age of the frame, the filter returns
  the frame itself. (A frame with no rows has no least age: the script cannot build the
  slider for it; filtering it gives it back under any range.)
\<close>

theorem filtered_data_identity:
  assumes "df = [] \<or> age_slider_bounds df = Inr (lo, hi)"
  shows "filtered_data df [] [] (lo, hi) = df"
proof (cases "df = []")
  case True
  then show ?thesis by (simp add: filtered_data_def)
next
  case False
  with assms have lo: "lo = Min (set (map age df))" and hi: "hi = Max (set (map age df))"
    by (simp_all add: age_slider_bounds_def)
  have "spec_matches {} {} lo hi r" if "r \<in> set df" for r
    using that by (simp add: spec_matches_def lo hi)
  then show ?thesis
    by (simp add: filtered_data_eq_filter)
qed

theorem filtered_data_identity_witness:
  "age_slider_bounds example_frame = Inr (19, 60)
   \<and> filtered_data example_frame [] [] (19, 60) = example_frame"
proof -
  have h: "age_slider_bounds example_frame = Inr (19, 60)"
    by (simp add: age_slider_bounds_def example_frame_def mk_row_def)
  from filtered_data_identity [OF disjI2, OF h] h show ?thesis by simp
qed

section \<open>Properties of the entries by country\<close>

lemma first_seen_distinct: "distinct (first_seen xs)"
  by (simp add: first_seen_def)

lemma first_seen_set: "set (first_seen xs) = set xs"
  by (simp add: first_seen_def)

lemma tally_total: "sum_list (map snd (tally xs)) = length xs"
proof -
  have "sum_list (map snd (tally xs)) = sum_list (map (count_list xs) (first_seen xs))"
    by (simp add: tally_def comp_def)
  also have "\<dots> = sum (count_list xs) (set xs)"
    by (simp add: sum_list_distinct_conv_sum_set first_seen_distinct first_seen_set)
  also have "\<dots> = length xs"
    by (rule sum_count_set) simp_all
  finally show ?thesis .
qed

lemma sum_list_mset_cong:
  fixes f :: "'a \<Rightarrow> nat"
  assumes "mset xs = mset ys"
  shows "sum_list (map f xs) = sum_list (map f ys)"
proof -
  have "sum_list (map f xs) = sum_mset (image_mset f (mset xs))"
    by (simp flip: sum_mset_sum_list)
  also have "\<dots> = sum_mset (image_mset f (mset ys))"
    by (simp add: assms)
  also have "\<dots> = sum_list (map f ys)"
    by (simp flip: sum_mset_sum_list)
  finally show ?thesis .
qed

text \<open>A descending arrangement always exists, so the sorting operations return.\<close>

lemma descending_arrangement:
  "mset (rev (sort_key key xs)) = mset xs" "descending_by key (rev (sort_key key xs))"
proof -
  show "mset (rev (sort_key key xs)) = mset xs"
    by simp
  have "sorted (map key (sort_key key xs))"
    by (rule sorted_sort_key)
  then show "descending_by key (rev (sort_key key xs))"
    by (simp add: descending_by_def sorted_wrt_rev sorted_map)
qed

lemma descending_take: "descending_by key xs \<Longrightarrow> descending_by key (take n xs)"
  by (simp add: descending_by_def sorted_wrt_take)

lemma value_counts_total:
  assumes "value_counts xs out"
  shows "sum_list (map snd out) = length xs"
proof -
  from assms have "mset out = mset (tally xs)"
    by (auto elim: value_counts.cases)
  then have "sum_list (map snd out) = sum_list (map snd (tally xs))"
    by (rule sum_list_mset_cong)
  then show ?thesis
    by (simp add: tally_total)
qed

lemma value_counts_returns: "\<exists>out. value_counts xs out"
  using descending_arrangement [of snd "tally xs"]
  by (blast intro: value_counts_sorted)


lemma tally_example:
  "tally (map country example_frame) = [(''US'', 3), (''DE'', 1), (''IN'', 1)]"
  by (simp add: tally_def first_seen_def example_frame_def mk_row_def)

text \<open>
  Claim C6. For every filtered view the table of entries by country exists, and in each
  table the operation can return the counts add up to the number of rows of the view.
\<close>

theorem country_counts_sum:
  "(\<exists>out. country_counts fd out)
   \<and> (\<forall>out. country_counts fd out \<longrightarrow> sum_list (map snd out) = length fd)"
  using value_counts_returns [of "map country fd"] value_counts_total [of "map country fd"]
  by (auto simp: country_counts_def)

theorem country_counts_sum_witness:
  "country_counts example_frame [(''US'', 3), (''IN'', 1), (''DE'', 1)]
   \<and> sum_list (map snd [(''US'', 3::nat), (''IN'', 1), (''DE'', 1)]) = length example_frame"
proof -
  have c: "country_counts example_frame [(''US'', 3), (''IN'', 1), (''DE'', 1)]"
    unfolding country_counts_def
    by (rule value_counts_sorted) (simp_all add: tally_example descending_by_def)
  with country_counts_sum [of example_frame] show ?thesis
    by blast
qed

section \<open>Properties of the family history table\<close>

lemma groupby_answers:
  "set (map (snd \<circ> fst) (groupby_value_counts fd)) = family_history ` set fd"
  by (fastforce simp: groupby_value_counts_def Let_def image_iff)

lemma unstack_columns:
  "set (columns (unstack (groupby_value_counts fd))) = family_history ` set fd"
  using groupby_answers [of fd] by (simp add: unstack_def Let_def)

lemma sort_values_Inl:
  "sort_values t label (Inl e) \<longleftrightarrow> label \<notin> set (columns t) \<and> e = KeyError"
  by (auto simp: sort_values.simps)

lemma sort_values_Inr:
  "sort_values t label (Inr t') \<longleftrightarrow>
     label \<in> set (columns t) \<and> columns t' = columns t \<and> mset (body t') = mset (body t)
     \<and> descending_by (cell t label) (body t')"
proof
  assume "sort_values t label (Inr t')"
  then show "label \<in> set (columns t) \<and> columns t' = columns t
      \<and> mset (body t') = mset (body t) \<and> descending_by (cell t label) (body t')"
    by (auto elim: sort_values.cases)
next
  assume a: "label \<in> set (columns t) \<and> columns t' = columns t
      \<and> mset (body t') = mset (body t) \<and> descending_by (cell t label) (body t')"
  then have "sort_values t label (Inr (t\<lparr>body := body t'\<rparr>))"
    by (intro sort_values_sorted) simp_all
  moreover have "t\<lparr>body := body t'\<rparr> = t'"
    using a by (intro crosstab.equality) simp_all
  ultimately show "sort_values t label (Inr t')"
    by simp
qed

lemma family_history_Inl:
  "family_history_by_country fd (Inl e) \<longleftrightarrow>
     ''Yes'' \<notin> family_history ` set fd \<and> e = KeyError"
  by (simp add: family_history_by_country.simps sort_values_Inl unstack_columns)

lemma family_history_Inr:
  "family_history_by_country fd (Inr r) \<longleftrightarrow>
     (\<exists>t. sort_values (unstack (groupby_value_counts fd)) ''Yes'' (Inr t) \<and> r = head 10 t)"
  by (auto simp: family_history_by_country.simps)

lemma family_history_Inr_yes:
  assumes "family_history_by_country fd (Inr r)"
  shows "''Yes'' \<in> family_history ` set fd"
  using assms by (auto simp: family_history_Inr sort_values_Inr unstack_columns)

lemma family_history_may_return:
  assumes "''Yes'' \<in> family_history ` set fd"
  shows "\<exists>r. family_history_by_country fd (Inr r)"
proof -
  let ?t = "unstack (groupby_value_counts fd)"
  have "sort_values ?t ''Yes'' (Inr (?t\<lparr>body := rev (sort_key (cell ?t ''Yes'') (body ?t))\<rparr>))"
    using assms descending_arrangement [of "cell ?t ''Yes''" "body ?t"]
    by (intro sort_values_sorted) (simp_all add: unstack_columns)
  then show ?thesis
    by (blast intro: family_history_returns)
qed

lemma family_history_top:
  assumes "family_history_by_country fd (Inr r)"
  shows "length (body r) \<le> 10" "descending_by (cell r ''Yes'') (body r)"
    "mset (body r) \<subseteq># mset (body (unstack (groupby_value_counts fd)))"
    "columns r = columns (unstack (groupby_value_counts fd))"
proof -
  let ?u = "unstack (groupby_value_counts fd)"
  from assms obtain t where t: "sort_values ?u ''Yes'' (Inr t)" and r: "r = head 10 t"
    by (auto simp: family_history_Inr)
  from t have c: "columns t = columns ?u" and m: "mset (body t) = mset (body ?u)"
    and d: "descending_by (cell ?u ''Yes'') (body t)"
    by (simp_all add: sort_values_Inr)
  have ce: "cell r = cell ?u"
    by (simp add: fun_eq_iff cell_def c r head_def)
  show "length (body r) \<le> 10"
    by (simp add: r head_def)
  show "descending_by (cell r ''Yes'') (body r)"
    using d unfolding ce by (simp add: r head_def descending_take)
  have "mset (take 10 (body t)) \<subseteq># mset (body t)"
    by (metis append_take_drop_id mset_append mset_subset_eq_add_left)
  then show "mset (body r) \<subseteq># mset (body ?u)"
    by (simp add: r head_def m)
  show "columns r = columns ?u"
    by (simp add: r head_def c)
qed

lemma unstack_no_history:
  "unstack (groupby_value_counts no_history_frame) =
     \<lparr>columns = [''No''], body = [(''DE'', [2]), (''IN'', [1])]\<rparr>"
  by (simp add: unstack_def groupby_value_counts_def no_history_frame_def mk_row_def Let_def)

text \<open>
  Claim C7. The claim asks for a table of at most 10 rows on every filtered view. Line 82
  fills the answers that a country lacks with 0, but an answer that no row of the view
  gives gets no column at all. On the three sample rows of Germany and India, none of
  which has family history Yes, the grouped table has the single column No, and line 83
  raises \<^verbatim>\<open>KeyError\<close> where the claim wants the two countries listed with a Yes count
  of 0: the script returns no table on this view.
\<close>

theorem family_history_no_table:
  "unstack (groupby_value_counts no_history_frame) =
     \<lparr>columns = [''No''], body = [(''DE'', [2]), (''IN'', [1])]\<rparr>
   \<and> family_history_by_country no_history_frame (Inl KeyError)
   \<and> \<not> family_history_by_country no_history_frame
        (Inr \<lparr>columns = [''No'', ''Yes''], body = [(''DE'', [2, 0]), (''IN'', [1, 0])]\<rparr>)"
proof -
  have no: "''Yes'' \<notin> family_history ` set no_history_frame"
    by (simp add: no_history_frame_def mk_row_def)
  then have "family_history_by_country no_history_frame (Inl KeyError)"
    by (simp add: family_history_Inl)
  moreover have "\<not> family_history_by_country no_history_frame (Inr r)" for r
    using no family_history_Inr_yes [of no_history_frame r] by blast
  ultimately show ?thesis
    by (simp add: unstack_no_history)
qed

text \<open>
  Claim C10. On a filtered view that has rows but none with family history Yes, the
  operation raises \<^verbatim>\<open>KeyError\<close> and returns no table: the grouped table has no column
  labelled Yes to sort by. The sample of two such rows shows that such views exist.
\<close>

theorem family_history_without_yes_raises:
  assumes "fd \<noteq> []" and "\<forall>r\<in>set fd. family_history r \<noteq> ''Yes''"
  shows "family_history_by_country fd (Inl KeyError)
    \<and> (\<forall>res. family_history_by_country fd res \<longrightarrow> res = Inl KeyError)"
proof -
  from assms(2) have no: "''Yes'' \<notin> family_history ` set fd"
    by force
  then have "family_history_by_country fd (Inl KeyError)"
    by (simp add: family_history_Inl)
  moreover have "res = Inl KeyError" if "family_history_by_country fd res" for res
  proof (cases res)
    case (Inl e)
    with that show ?thesis by (simp add: family_history_Inl)
  next
    case (Inr r)
    with that no family_history_Inr_yes [of fd r] show ?thesis by simp
  qed
  ultimately show ?thesis
    by blast
qed

theorem family_history_without_yes_raises_witness:
  "no_yes_frame \<noteq> [] \<and> map family_history no_yes_frame = [''No'', ''No'']
   \<and> family_history_by_country no_yes_frame (Inl KeyError)"
proof -
  have h1: "no_yes_frame \<noteq> []"
    by (simp add: no_yes_frame_def)
  have h2: "\<forall>r\<in>set no_yes_frame. family_history r \<noteq> ''Yes''"
    by (simp add: no_yes_frame_def mk_row_def)
  have h3: "map family_history no_yes_frame = [''No'', ''No'']"
    by (simp add: no_yes_frame_def mk_row_def)
  from family_history_without_yes_raises [OF h1 h2] h1 h3 show ?thesis
    by simp
qed

section \<open>Properties of the monthly table\<close>

lemma enumerate_map_upto:
  "map (\<lambda>(i, (m, c)). h i m c) (enumerate 0 (map (\<lambda>m. (m, g m)) [lo..hi]))
   = map (\<lambda>m. h (nat (m - lo)) m (g m)) [lo..hi]"
proof (rule nth_equalityI)
  show "length (map (\<lambda>(i, (m, c)). h i m c) (enumerate 0 (map (\<lambda>m. (m, g m)) [lo..hi])))
      = length (map (\<lambda>m. h (nat (m - lo)) m (g m)) [lo..hi])"
    by simp
next
  fix i
  assume "i < length (map (\<lambda>(i, (m, c)). h i m c) (enumerate 0 (map (\<lambda>m. (m, g m)) [lo..hi])))"
  then have i: "i < length [lo..hi]"
    by simp
  then have "lo + int i \<le> hi"
    by simp
  then have "[lo..hi] ! i = lo + int i"
    by (rule nth_upto)
  with i show "map (\<lambda>(i, (m, c)). h i m c) (enumerate 0 (map (\<lambda>m. (m, g m)) [lo..hi])) ! i
      = map (\<lambda>m. h (nat (m - lo)) m (g m)) [lo..hi] ! i"
    by (simp add: nth_enumerate_eq)
qed

lemma time_data_empty: "time_data [] = []"
  by (simp add: time_data_def resample_count_def)

lemma time_data_rows:
  assumes "fd \<noteq> []"
  shows "time_data fd =
     map (\<lambda>m. \<lparr>td_timestamp = m, td_treatment = month_count fd m,
               month_index = nat (m - first_month fd)\<rparr>)
         [first_month fd .. last_month fd]"
  using assms
  by (simp add: time_data_def resample_count_def
      enumerate_map_upto
        [where h = "\<lambda>i m c. \<lparr>td_timestamp = m, td_treatment = c, month_index = i\<rparr>"])

lemma time_data_index: "map month_index (time_data fd) = [0..<length (time_data fd)]"
  by (simp add: time_data_def comp_def case_prod_unfold
      flip: map_fst_enumerate [of 0 "resample_count fd", simplified])

lemma month_in_span:
  assumes "r \<in> set fd"
  shows "first_month fd \<le> month_number (timestamp r)"
    and "month_number (timestamp r) \<le> last_month fd"
  using assms by (simp_all add: first_month_def last_month_def months_of_def)

lemma spec_month_groups_subset:
  "set (spec_month_groups fd) \<subseteq> set (map td_timestamp (time_data fd))"
proof (cases "fd = []")
  case True
  then show ?thesis
    by (simp add: spec_month_groups_def months_of_def)
next
  case False
  then show ?thesis
    by (auto simp: time_data_rows comp_def spec_month_groups_def months_of_def month_in_span)
qed

lemma time_data_gap:
  "time_data gap_frame =
    [\<lparr>td_timestamp = 24168, td_treatment = 1, month_index = 0\<rparr>,
     \<lparr>td_timestamp = 24169, td_treatment = 0, month_index = 1\<rparr>,
     \<lparr>td_timestamp = 24170, td_treatment = 1, month_index = 2\<rparr>]"
  by (simp add: time_data_def resample_count_def first_month_def last_month_def months_of_def
      month_count_def gap_frame_def mk_row_def month_number_def upto_rec1)

lemma spec_month_groups_gap: "spec_month_groups gap_frame = [24168, 24170]"
  by (simp add: spec_month_groups_def months_of_def gap_frame_def mk_row_def month_number_def)

text \<open>
  Claim C2, as stated, fails. The two sample rows of January and March 2014 (months
  24168 and 24170) give a table of three rows: February, which holds no row of the view,
  is there with count 0 and takes index 1, so the months of the table are not the months
  that hold a row.
\<close>

theorem time_data_gap_counterexample:
  "spec_month_groups gap_frame = [24168, 24170]
   \<and> time_data gap_frame =
      [\<lparr>td_timestamp = 24168, td_treatment = 1, month_index = 0\<rparr>,
       \<lparr>td_timestamp = 24169, td_treatment = 0, month_index = 1\<rparr>,
       \<lparr>td_timestamp = 24170, td_treatment = 1, month_index = 2\<rparr>]
   \<and> map td_timestamp (time_data gap_frame) \<noteq> spec_month_groups gap_frame"
  by (simp add: time_data_gap spec_month_groups_gap)

text \<open>
  Claim C2, amended. For every filtered view with at least one row the monthly table has
  exactly one row for every calendar month from the earliest month of the view to the
  latest, in ascending order, with the number of rows of the view in that month; a month
  of that range without rows has a row with count 0. The index runs 0, 1, 2 and so on
  over the rows, so it is the calendar distance from the first month. Every month that
  holds a row of the view is in the table.
\<close>

theorem time_data_every_month:
  assumes "fd \<noteq> []"
  shows "time_data fd =
           map (\<lambda>m. \<lparr>td_timestamp = m, td_treatment = month_count fd m,
                     month_index = nat (m - first_month fd)\<rparr>)
               [first_month fd .. last_month fd]
         \<and> map month_index (time_data fd) = [0..<length (time_data fd)]
         \<and> set (spec_month_groups fd) \<subseteq> set (map td_timestamp (time_data fd))"
  using assms time_data_rows [of fd] time_data_index [of fd] spec_month_groups_subset [of fd]
  by simp

theorem time_data_every_month_witness:
  "example_frame \<noteq> []
   \<and> first_month example_frame = 24175 \<and> last_month example_frame = 24180
   \<and> map td_treatment (time_data example_frame) = [2, 1, 0, 1, 0, 1]
   \<and> map month_index (time_data example_frame) = [0, 1, 2, 3, 4, 5]"
proof -
  have h: "example_frame \<noteq> []"
    by (simp add: example_frame_def)
  have f: "first_month example_frame = 24175" and l: "last_month example_frame = 24180"
    by (simp_all add: first_month_def last_month_def months_of_def example_frame_def
        mk_row_def month_number_def)
  from time_data_every_month [OF h] have
    "time_data example_frame =
       map (\<lambda>m. \<lparr>td_timestamp = m, td_treatment = month_count example_frame m,
                 month_index = nat (m - 24175)\<rparr>) [24175 .. 24180]"
    by (simp add: f l)
  then have "map td_treatment (time_data example_frame)
        = map (month_count example_frame) [24175 .. 24180]"
    and "map month_index (time_data example_frame) = map (\<lambda>m. nat (m - 24175)) [24175 .. 24180]"
    by (simp_all add: comp_def)
  moreover have "map (month_count example_frame) [24175 .. 24180] = [2, 1, 0, 1, 0, 1]"
    by (simp add: upto_rec1 month_count_def example_frame_def mk_row_def month_number_def)
  moreover have "map (\<lambda>m. nat (m - 24175)) [24175 .. 24180] = [0, 1, 2, 3, 4, 5]"
    by (simp add: upto_rec1)
  ultimately show ?thesis
    using h f l by simp
qed

section \<open>Properties of the fitted line\<close>

lemma fit_one: "fit [0] [c] = Inr (0, c)"
  by (simp add: fit_def average_def)

lemma fit_two: "fit [0, 1] [a, b] = Inr (b - a, a)"
  by (simp add: fit_def average_def Let_def field_simps)

lemma predicted_empty: "predicted_treatment [] = Inl ValueError"
  by (simp add: predicted_treatment_def time_data_empty fit_def)

lemma month_count_all:
  assumes "last_month fd = first_month fd"
  shows "month_count fd (first_month fd) = length fd"
proof -
  have "month_number (timestamp r) = first_month fd" if "r \<in> set fd" for r
    using month_in_span [OF that] assms by simp
  then have "filter (\<lambda>r. month_number (timestamp r) = first_month fd) fd = fd"
    by (simp add: filter_id_conv)
  then show ?thesis
    by (simp add: month_count_def)
qed

lemma predicted_one_month:
  assumes "fd \<noteq> []" and "last_month fd = first_month fd"
  shows "predicted_treatment fd =
     Inr [(\<lparr>td_timestamp = first_month fd, td_treatment = length fd, month_index = 0\<rparr>,
           of_nat (length fd))]"
  using assms
  by (simp add: predicted_treatment_def time_data_rows month_count_all fit_one predict_def)

lemma predicted_two_months:
  assumes "fd \<noteq> []" and "last_month fd = first_month fd + 1"
  shows "predicted_treatment fd =
     Inr [(\<lparr>td_timestamp = first_month fd, td_treatment = month_count fd (first_month fd),
            month_index = 0\<rparr>, of_nat (month_count fd (first_month fd))),
          (\<lparr>td_timestamp = first_month fd + 1,
            td_treatment = month_count fd (first_month fd + 1), month_index = 1\<rparr>,
           of_nat (month_count fd (first_month fd + 1)))]"
proof -
  have "[first_month fd .. first_month fd + 1] = [first_month fd, first_month fd + 1]"
    by (simp add: upto_rec1)
  then show ?thesis
    using assms
    by (simp add: predicted_treatment_def time_data_rows fit_two predict_def)
qed

lemma months_of_empty: "months_of fd = [] \<longleftrightarrow> fd = []"
  by (simp add: months_of_def)

lemma few_month_groups:
  assumes "length (spec_month_groups fd) < 2" and "fd \<noteq> []"
  shows "last_month fd = first_month fd"
proof -
  have "card (set (months_of fd)) = length (spec_month_groups fd)"
    by (simp add: spec_month_groups_def length_remdups_card_conv)
  moreover have "card (set (months_of fd)) \<noteq> 0"
    using assms(2) by (simp add: months_of_empty)
  ultimately have "card (set (months_of fd)) = 1"
    using assms(1) by linarith
  then obtain m where "set (months_of fd) = {m}"
    by (rule card_1_singletonE)
  then show ?thesis
    by (simp add: first_month_def last_month_def)
qed

lemma consecutive_month_groups:
  assumes "spec_month_groups fd = [m, m + 1]"
  shows "fd \<noteq> []" and "first_month fd = m" and "last_month fd = m + 1"
proof -
  have "set (spec_month_groups fd) = set (months_of fd)"
    by (simp add: spec_month_groups_def)
  with assms have s: "set (months_of fd) = {m, m + 1}"
    by simp
  then show "fd \<noteq> []"
    by (auto simp: months_of_def)
  from s show "first_month fd = m" and "last_month fd = m + 1"
    by (simp_all add: first_month_def last_month_def)
qed

lemma predicted_one_month_frame:
  "predicted_treatment one_month_frame =
     Inr [(\<lparr>td_timestamp = 24175, td_treatment = 2, month_index = 0\<rparr>, 2)]"
  by (simp add: predicted_treatment_def time_data_def resample_count_def first_month_def
      last_month_def months_of_def month_count_def one_month_frame_def mk_row_def
      month_number_def fit_def average_def predict_def)

text \<open>
  Claim C3, as stated, fails. The two sample rows of August 2014 are one month group,
  and the fit on them succeeds: it returns the one row with a predicted count equal to
  the actual count 2.
\<close>

theorem predicted_one_month_counterexample:
  "length (spec_month_groups one_month_frame) < 2
   \<and> predicted_treatment one_month_frame =
       Inr [(\<lparr>td_timestamp = 24175, td_treatment = 2, month_index = 0\<rparr>, 2)]"
  by (simp add: predicted_one_month_frame)
    (simp add: spec_month_groups_def months_of_def one_month_frame_def mk_row_def)

text \<open>
  Claim C3, amended. For a filtered view whose rows span fewer than 2 month groups: on
  the empty view the fit raises \<^verbatim>\<open>ValueError\<close>, the library's rejection of an input
  without samples, which the script does not catch; on a view whose rows all fall in one
  calendar month the fit does not fail and returns the single row of that month with a
  predicted count equal to its actual count, the number of rows of the view.
\<close>

theorem predicted_fewer_than_two_months:
  assumes "length (spec_month_groups fd) < 2"
  shows "predicted_treatment fd =
     (if fd = [] then Inl ValueError
      else Inr [(\<lparr>td_timestamp = first_month fd, td_treatment = length fd,
                  month_index = 0\<rparr>, of_nat (length fd))])"
  using predicted_empty predicted_one_month [of fd] few_month_groups [OF assms]
  by simp

theorem predicted_fewer_than_two_months_witness:
  "length (spec_month_groups one_row_frame) < 2
   \<and> predicted_treatment one_row_frame =
       Inr [(\<lparr>td_timestamp = 24178, td_treatment = 1, month_index = 0\<rparr>, 1)]
   \<and> length (spec_month_groups []) < 2
   \<and> predicted_treatment [] = Inl ValueError"
proof -
  have h1: "length (spec_month_groups one_row_frame) < 2"
    by (simp add: spec_month_groups_def months_of_def one_row_frame_def)
  have h2: "length (spec_month_groups []) < 2"
    by (simp add: spec_month_groups_def months_of_def)
  have f: "first_month one_row_frame = 24178"
    by (simp add: first_month_def months_of_def one_row_frame_def mk_row_def month_number_def)
  have n: "one_row_frame \<noteq> []" "length one_row_frame = 1"
    by (simp_all add: one_row_frame_def)
  from predicted_fewer_than_two_months [OF h1] predicted_fewer_than_two_months [OF h2] h1 h2
  show ?thesis
    by (simp add: f n)
qed

text \<open>
  Claim C9, as stated, fails. The sample rows of January and March 2014 are exactly two
  month groups, but the table has the row of February as well, with count 0, and the
  fitted line through the counts 1, 0, 1 is flat at 2/3: no predicted count equals its
  actual count.
\<close>

theorem predicted_gap_counterexample:
  "length (spec_month_groups gap_frame) = 2
   \<and> predicted_treatment gap_frame =
       Inr [(\<lparr>td_timestamp = 24168, td_treatment = 1, month_index = 0\<rparr>, 2 / 3),
            (\<lparr>td_timestamp = 24169, td_treatment = 0, month_index = 1\<rparr>, 2 / 3),
            (\<lparr>td_timestamp = 24170, td_treatment = 1, month_index = 2\<rparr>, 2 / 3)]
   \<and> (2 / 3 :: rat) \<noteq> of_nat 1"
  by (simp add: spec_month_groups_gap predicted_treatment_def time_data_gap fit_def
      average_def predict_def)

text \<open>
  Claim C9, amended. For every filtered view whose rows span exactly two month groups
  that are consecutive calendar months, the table has exactly these two rows and the
  fitted line passes through both: the predicted count equals the actual count at each
  (in exact rational arithmetic).
\<close>

theorem predicted_two_consecutive_months:
  assumes "spec_month_groups fd = [m, m + 1]"
  shows "predicted_treatment fd =
     Inr [(\<lparr>td_timestamp = m, td_treatment = month_count fd m, month_index = 0\<rparr>,
           of_nat (month_count fd m)),
          (\<lparr>td_timestamp = m + 1, td_treatment = month_count fd (m + 1), month_index = 1\<rparr>,
           of_nat (month_count fd (m + 1)))]"
  using consecutive_month_groups [OF assms] predicted_two_months [of fd]
  by simp

theorem predicted_two_consecutive_months_witness:
  "spec_month_groups two_month_frame = [24175, 24175 + 1]
   \<and> predicted_treatment two_month_frame =
       Inr [(\<lparr>td_timestamp = 24175, td_treatment = 2, month_index = 0\<rparr>, 2),
            (\<lparr>td_timestamp = 24176, td_treatment = 1, month_index = 1\<rparr>, 1)]"
proof -
  have h: "spec_month_groups two_month_frame = [24175, 24175 + 1]"
    by (simp add: spec_month_groups_def months_of_def two_month_frame_def mk_row_def
        month_number_def)
  have c: "month_count two_month_frame 24175 = 2" "month_count two_month_frame 24176 = 1"
    by (simp_all add: month_count_def two_month_frame_def mk_row_def month_number_def)
  from predicted_two_consecutive_months [OF h] h show ?thesis
    by (simp add: c)
qed

section \<open>Properties of the indicators\<close>


lemma compute_kpis_categorical:
  assumes "fd \<noteq> []" and "k \<noteq> Age"
  shows "compute_kpis fd k = Inl TypeError"
  using assms by (cases k) (simp_all add: compute_kpis_def column_mean_def mean_object_def)


text \<open>
  Claim C8. Line 50 offers the categorical columns \<^verbatim>\<open>treatment\<close> and
  \<^verbatim>\<open>family_history\<close> as features of the average, and the claim asks for a recoverable
  error when one of them is selected. The script signals none: on every filtered view
  with at least one row, line 95 takes the mean of the column of strings, which raises
  \<^verbatim>\<open>TypeError\<close>; nothing catches it, so the run ends there, without the third
  indicator and without a categorical summary in place of the mean.
\<close>

theorem compute_kpis_categorical_raises:
  assumes "fd \<noteq> []" and "k = Treatment \<or> k = Family_history"
  shows "compute_kpis fd k = Inl TypeError"
  using assms compute_kpis_categorical [of fd k]
  by auto

theorem compute_kpis_categorical_raises_witness:
  "example_frame \<noteq> []
   \<and> compute_kpis example_frame Treatment = Inl TypeError
   \<and> compute_kpis example_frame Family_history = Inl TypeError"
proof -
  have h: "example_frame \<noteq> []"
    by (simp add: example_frame_def)
  from compute_kpis_categorical_raises [OF h, of Treatment]
    compute_kpis_categorical_raises [OF h, of Family_history] h
  show ?thesis
    by simp
qed




end
